theory Spec2Isabelle
  imports Complex_Main
begin

section \<open>Values exchanged with the handlers\<close>

text \<open>
  The TypeScript interfaces \<^verbatim>\<open>FHIRResource\<close> and \<^verbatim>\<open>Patient\<close> are erased when the
  file is compiled, and the route \<^verbatim>\<open>POST /Patient\<close> hands \<^verbatim>\<open>req.body\<close> to
  \<^verbatim>\<open>create\<close> as it was parsed. A resource is therefore modelled as the JavaScript
  value that arrives at run time. An object is the list of its own properties in
  insertion order, each name occurring once, as \<^verbatim>\<open>JSON.parse\<close> builds it. Numbers are
  the finite numbers a JSON text can carry; the code only ever tests a value for
  truthiness.
\<close>

datatype jsval =
    JUndefined
  | JNull
  | JBool bool
  | JNum rat
  | JStr string
  | JArr "jsval list"
  | JObj "(string \<times> jsval) list"

type_synonym FHIRResource = jsval

type_synonym Patient = jsval

text \<open>
  What the code can throw: \<^verbatim>\<open>new Error(message)\<close>, and the \<^verbatim>\<open>TypeError\<close> the
  engine raises when a property of \<^verbatim>\<open>undefined\<close> or \<^verbatim>\<open>null\<close> is read. A rejected
  promise is \<open>Inl\<close> of the error, a fulfilled one \<open>Inr\<close> of its value.
\<close>

datatype error = Error string | TypeError

text \<open>JavaScript's \<^verbatim>\<open>ToBoolean\<close>; \<^verbatim>\<open>!v\<close> is its negation.\<close>

fun truthy :: "jsval \<Rightarrow> bool" where
  "truthy JUndefined = False"
| "truthy JNull = False"
| "truthy (JBool b) = b"
| "truthy (JNum n) = (n \<noteq> 0)"
| "truthy (JStr s) = (s \<noteq> [])"
| "truthy (JArr xs) = True"
| "truthy (JObj ps) = True"

text \<open>
  The member access \<^verbatim>\<open>v.k\<close> for the data properties of a resource
  (\<^verbatim>\<open>resourceType\<close>, \<^verbatim>\<open>id\<close>, \<^verbatim>\<open>meta\<close>, \<^verbatim>\<open>gender\<close>, ...): it throws on
  \<^verbatim>\<open>undefined\<close> and \<^verbatim>\<open>null\<close>, reads an own property of an object, and yields
  \<^verbatim>\<open>undefined\<close> where the property is missing and on primitives and arrays, which have no
  property of such a name. Names that the prototypes define (\<^verbatim>\<open>length\<close>,
  \<^verbatim>\<open>constructor\<close>, ...) are never read by the code and are outside this function.
\<close>

fun get_property :: "jsval \<Rightarrow> string \<Rightarrow> error + jsval" where
  "get_property JUndefined k = Inl TypeError"
| "get_property JNull k = Inl TypeError"
| "get_property (JObj ps) k = Inr (case map_of ps k of None \<Rightarrow> JUndefined | Some v \<Rightarrow> v)"
| "get_property v k = Inr JUndefined"

section \<open>Validator and search parameter builder\<close>

text \<open>
  \<^verbatim>\<open>
  const validateResource = async (resource: FHIRResource): Promise<void> => {
      if (!resource.resourceType) {
          throw new Error('Resource type is required');
      }
      // Additional validation logic
  };
  \<close>
  The candidate is passed by reference, so the function returns, next to its outcome, the
  candidate as the call leaves it.
\<close>

definition validateResource :: "FHIRResource \<Rightarrow> (error + unit) \<times> FHIRResource" where
  "validateResource resource =
     (case get_property resource ''resourceType'' of
        Inl e \<Rightarrow> (Inl e, resource)
      | Inr t \<Rightarrow>
          if \<not> truthy t then (Inl (Error ''Resource type is required''), resource)
          else (Inr (), resource))"

text \<open>
  \<^verbatim>\<open>
  const createSearchParameters = (params: Record<string, string>) => {
      return Object.entries(params).map(([key, value]) => ({
          name: key,
          value: value
      }));
  };
  \<close>
  A \<^verbatim>\<open>Record<string, string>\<close> is given by its entries in the order
  \<^verbatim>\<open>Object.entries\<close> enumerates them.
\<close>

record search_parameter =
  name :: string
  "value" :: string

definition createSearchParameters :: "(string \<times> string) list \<Rightarrow> search_parameter list" where
  "createSearchParameters params =
     map (\<lambda>(key, value). \<lparr>name = key, value = value\<rparr>) params"

section \<open>Resource controllers\<close>

text \<open>
  The only instance field of a controller is \<^verbatim>\<open>resourceType\<close>; the class keeps no
  store. Each method takes the controller and returns it next to the outcome of its
  promise, so that what a call leaves behind can be compared with what it found.
\<close>

record controller =
  resourceType :: string

text \<open>\<^verbatim>\<open>async create(resource: T): Promise<T>\<close>\<close>

definition create :: "controller \<Rightarrow> FHIRResource \<Rightarrow> (error + FHIRResource) \<times> controller" where
  "create this resource =
     (case validateResource resource of
        (Inl e, resource') \<Rightarrow> (Inl e, this)
      | (Inr u, resource') \<Rightarrow> (Inr resource', this))"

text \<open>\<^verbatim>\<open>async read(id: string): Promise<T>\<close>, which returns \<^verbatim>\<open>{} as T\<close>.\<close>

definition read :: "controller \<Rightarrow> string \<Rightarrow> (error + FHIRResource) \<times> controller" where
  "read this id' = (Inr (JObj []), this)"

text \<open>\<^verbatim>\<open>async search(params: Record<string, string>): Promise<T[]>\<close>\<close>

definition search ::
  "controller \<Rightarrow> (string \<times> string) list \<Rightarrow> (error + FHIRResource list) \<times> controller" where
  "search this params = (let searchParams = createSearchParameters params in (Inr [], this))"

text \<open>\<^verbatim>\<open>async update(id: string, resource: T): Promise<T>\<close>\<close>

definition update ::
  "controller \<Rightarrow> string \<Rightarrow> FHIRResource \<Rightarrow> (error + FHIRResource) \<times> controller" where
  "update this id' resource =
     (case validateResource resource of
        (Inl e, resource') \<Rightarrow> (Inl e, this)
      | (Inr u, resource') \<Rightarrow> (Inr resource', this))"

text \<open>\<^verbatim>\<open>async delete(id: string): Promise<void>\<close>, whose body is empty.\<close>

definition delete :: "controller \<Rightarrow> string \<Rightarrow> (error + unit) \<times> controller" where
  "delete this id' = (Inr (), this)"

text \<open>
  \<^verbatim>\<open>class PatientController extends FHIRResourceController<Patient>\<close>, with
  \<^verbatim>\<open>resourceType = 'Patient'\<close>; the routes build one with \<^verbatim>\<open>new\<close> for each request.
\<close>

definition PatientController :: controller where
  "PatientController = \<lparr>resourceType = ''Patient''\<rparr>"

definition searchByName :: "controller \<Rightarrow> string \<Rightarrow> (error + Patient list) \<times> controller" where
  "searchByName this n = search this [(''name'', n)]"

definition getPatientHistory :: "controller \<Rightarrow> string \<Rightarrow> (error + Patient list) \<times> controller" where
  "getPatientHistory this id' = (Inr [], this)"

text \<open>
  A request against a controller, and the controller it leaves behind: used to speak
  about a read after any history of calls.
\<close>

datatype request =
    Create FHIRResource
  | Read string
  | Search "(string \<times> string) list"
  | Update string FHIRResource
  | Delete string
  | SearchByName string
  | GetPatientHistory string

fun after :: "controller \<Rightarrow> request \<Rightarrow> controller" where
  "after this (Create resource) = snd (create this resource)"
| "after this (Read id') = snd (read this id')"
| "after this (Search params) = snd (search this params)"
| "after this (Update id' resource) = snd (update this id' resource)"
| "after this (Delete id') = snd (delete this id')"
| "after this (SearchByName n) = snd (searchByName this n)"
| "after this (GetPatientHistory id') = snd (getPatientHistory this id')"

text \<open>
  Modelled from the spec: the closed set of recognized resource kinds. The code has no
  such set; the spec names Patient and Observation, the two kinds the source imports.
\<close>

definition recognized_kinds :: "string set" where
  "recognized_kinds = {''Patient'', ''Observation''}"

section \<open>What the validator and the methods compute\<close>

lemma validateResource_candidate: "snd (validateResource r) = r"
  by (simp add: validateResource_def split: sum.split)

lemma validateResource_outcome:
  "get_property r ''resourceType'' = Inr t \<Longrightarrow>
   validateResource r =
     (if truthy t then (Inr (), r) else (Inl (Error ''Resource type is required''), r))"
  by (simp add: validateResource_def)

lemma validateResource_TypeError:
  "get_property r ''resourceType'' = Inl e \<Longrightarrow> validateResource r = (Inl e, r)"
  by (simp add: validateResource_def)

lemma get_property_Inl:
  "get_property r k = Inl e \<longleftrightarrow> (r = JUndefined \<or> r = JNull) \<and> e = TypeError"
  by (cases r) auto

lemma create_outcome:
  "create this r = (case fst (validateResource r) of Inl e \<Rightarrow> Inl e | Inr u \<Rightarrow> Inr r, this)"
proof (cases "validateResource r")
  case (Pair out r')
  with validateResource_candidate [of r] have "r' = r" by simp
  with Pair show ?thesis by (simp add: create_def split: sum.split)
qed

lemma update_outcome:
  "update this i r = (case fst (validateResource r) of Inl e \<Rightarrow> Inl e | Inr u \<Rightarrow> Inr r, this)"
proof (cases "validateResource r")
  case (Pair out r')
  with validateResource_candidate [of r] have "r' = r" by simp
  with Pair show ?thesis by (simp add: update_def split: sum.split)
qed

lemma after_same: "after this q = this"
  by (cases q)
    (simp_all add: create_outcome update_outcome read_def search_def delete_def
      searchByName_def getPatientHistory_def)

lemma foldl_after_same: "foldl after this history = this"
  by (induction history arbitrary: this) (simp_all add: after_same)

section \<open>Properties\<close>

text \<open>
  C1, as the code has it. \<^verbatim>\<open>create\<close> never looks at the \<^verbatim>\<open>id\<close> of the resource and
  keeps no store: for every candidate whose \<^verbatim>\<open>resourceType\<close> can be read, it returns
  the candidate itself, with nothing assigned, when the \<^verbatim>\<open>resourceType\<close> is truthy,
  and fails with the validator's error otherwise; the controller is as before.
\<close>

theorem create_returns_input:
  assumes "get_property r ''resourceType'' = Inr t"
  shows "create this r =
    (if truthy t then (Inr r, this) else (Inl (Error ''Resource type is required''), this))"
  using assms by (simp add: create_outcome validateResource_outcome)

text \<open>The theorem at a Patient that already carries the id \<^verbatim>\<open>p1\<close>.\<close>

theorem create_returns_input_witness:
  "get_property (JObj [(''resourceType'', JStr ''Patient''), (''id'', JStr ''p1'')])
       ''resourceType'' = Inr (JStr ''Patient'')
   \<and> create PatientController (JObj [(''resourceType'', JStr ''Patient''), (''id'', JStr ''p1'')])
     = (Inr (JObj [(''resourceType'', JStr ''Patient''), (''id'', JStr ''p1'')]),
        PatientController)"
  using create_returns_input
    [of "JObj [(''resourceType'', JStr ''Patient''), (''id'', JStr ''p1'')]"
      "JStr ''Patient''" PatientController]
  by simp

text \<open>
  C1 as stated fails: a resource whose \<^verbatim>\<open>id\<close> is set is accepted, and a resource
  without \<^verbatim>\<open>id\<close> comes back as it went in, still without \<^verbatim>\<open>id\<close> and \<^verbatim>\<open>meta\<close>.
\<close>

theorem create_id_set_counterexample:
  "get_property (JObj [(''resourceType'', JStr ''Patient''), (''id'', JStr ''p1'')]) ''id''
     = Inr (JStr ''p1'')
   \<and> \<not> isl (fst (create PatientController
          (JObj [(''resourceType'', JStr ''Patient''), (''id'', JStr ''p1'')])))
   \<and> fst (create PatientController (JObj [(''resourceType'', JStr ''Patient'')]))
     = Inr (JObj [(''resourceType'', JStr ''Patient'')])
   \<and> get_property (JObj [(''resourceType'', JStr ''Patient'')]) ''id'' = Inr JUndefined
   \<and> get_property (JObj [(''resourceType'', JStr ''Patient'')]) ''meta'' = Inr JUndefined"
  by (simp add: create_def validateResource_def)

text \<open>
  C2, as the code has it. \<^verbatim>\<open>update\<close> takes no concurrency token and consults no
  store: for every id and every candidate whose \<^verbatim>\<open>resourceType\<close> can be read, it
  returns the candidate itself, its \<^verbatim>\<open>versionId\<close> untouched, when the
  \<^verbatim>\<open>resourceType\<close> is truthy, and fails with the validator's error otherwise.
\<close>

theorem update_returns_input:
  assumes "get_property r ''resourceType'' = Inr t"
  shows "update this i r =
    (if truthy t then (Inr r, this) else (Inl (Error ''Resource type is required''), this))"
  using assms by (simp add: update_outcome validateResource_outcome)

text \<open>The theorem at a Patient of version 2, updated under an id nothing was stored for.\<close>

theorem update_returns_input_witness:
  "get_property
     (JObj [(''resourceType'', JStr ''Patient''), (''id'', JStr ''p1''),
            (''meta'', JObj [(''versionId'', JStr ''2'')])])
     ''resourceType'' = Inr (JStr ''Patient'')
   \<and> update PatientController ''p1''
       (JObj [(''resourceType'', JStr ''Patient''), (''id'', JStr ''p1''),
              (''meta'', JObj [(''versionId'', JStr ''2'')])])
     = (Inr (JObj [(''resourceType'', JStr ''Patient''), (''id'', JStr ''p1''),
                   (''meta'', JObj [(''versionId'', JStr ''2'')])]),
        PatientController)"
  using update_returns_input
    [of "JObj [(''resourceType'', JStr ''Patient''), (''id'', JStr ''p1''),
               (''meta'', JObj [(''versionId'', JStr ''2'')])]"
      "JStr ''Patient''" PatientController "''p1''"]
  by simp

text \<open>
  C2 as stated fails: on a controller that was just built, where no version of
  \<^verbatim>\<open>p1\<close> exists, the update does not fail, and the resource it yields still has
  \<^verbatim>\<open>versionId\<close> 2.
\<close>

theorem update_no_conflict_counterexample:
  "\<not> isl (fst (update PatientController ''p1''
       (JObj [(''resourceType'', JStr ''Patient''), (''id'', JStr ''p1''),
              (''meta'', JObj [(''versionId'', JStr ''2'')])])))
   \<and> fst (update PatientController ''p1''
       (JObj [(''resourceType'', JStr ''Patient''), (''id'', JStr ''p1''),
              (''meta'', JObj [(''versionId'', JStr ''2'')])]))
     = Inr (JObj [(''resourceType'', JStr ''Patient''), (''id'', JStr ''p1''),
                  (''meta'', JObj [(''versionId'', JStr ''2'')])])"
  by (simp add: update_def validateResource_def)

text \<open>
  C3, as the code has it. \<^verbatim>\<open>delete\<close> succeeds for every id, stored or not, and a
  \<^verbatim>\<open>read\<close> of that id afterwards succeeds with the empty object. The code has no
  \<^verbatim>\<open>readVersion\<close>; its only history operation, \<^verbatim>\<open>getPatientHistory\<close>, yields the
  empty list after the deletion too.
\<close>

theorem delete_then_read:
  "fst (delete this i) = Inr ()
   \<and> fst (read (snd (delete this i)) i) = Inr (JObj [])
   \<and> fst (getPatientHistory (snd (delete this i)) i) = Inr []"
  by (simp add: delete_def read_def getPatientHistory_def)

text \<open>
  C3 as stated fails: deleting \<^verbatim>\<open>p1\<close> on a controller that was just built does not
  fail, and after a creation and the deletion of \<^verbatim>\<open>p1\<close> the read of \<^verbatim>\<open>p1\<close> does not
  fail either.
\<close>

theorem delete_then_read_counterexample:
  "\<not> isl (fst (delete PatientController ''p1''))
   \<and> fst (create PatientController (JObj [(''resourceType'', JStr ''Patient'')]))
     = Inr (JObj [(''resourceType'', JStr ''Patient'')])
   \<and> \<not> isl (fst (read
         (snd (delete (snd (create PatientController (JObj [(''resourceType'', JStr ''Patient'')])))
            ''p1''))
         ''p1''))"
  by (simp add: delete_def read_def create_def validateResource_def)

text \<open>
  C4, as the code has it. On an object, \<^verbatim>\<open>validateResource\<close> succeeds exactly when
  the \<^verbatim>\<open>resourceType\<close> property is present and truthy, and its only failure is the
  error \<^verbatim>\<open>Resource type is required\<close>; so every non-empty \<^verbatim>\<open>resourceType\<close> string
  passes, whether or not it names a recognized kind, and the check fails exactly when the
  property is absent or falsy (for a string: empty).
\<close>

theorem validateResource_presence_only:
  "(fst (validateResource (JObj ps)) = Inr ()
      \<longleftrightarrow> (\<exists>t. map_of ps ''resourceType'' = Some t \<and> truthy t))
   \<and> (fst (validateResource (JObj ps)) \<noteq> Inr ()
      \<longrightarrow> fst (validateResource (JObj ps)) = Inl (Error ''Resource type is required''))
   \<and> (map_of ps ''resourceType'' = Some (JStr k) \<and> k \<noteq> []
      \<longrightarrow> fst (validateResource (JObj ps)) = Inr ())"
  by (auto simp: validateResource_def split: option.splits)

text \<open>
  The theorem at a resource of the unknown kind \<^verbatim>\<open>Banana\<close>, which passes, and at an
  object without \<^verbatim>\<open>resourceType\<close>, which fails.
\<close>

theorem validateResource_presence_only_witness:
  "map_of [(''resourceType'', JStr ''Banana'')] ''resourceType'' = Some (JStr ''Banana'')
   \<and> ''Banana'' \<noteq> []
   \<and> fst (validateResource (JObj [(''resourceType'', JStr ''Banana'')])) = Inr ()
   \<and> fst (validateResource (JObj [(''id'', JStr ''p1'')])) \<noteq> Inr ()
   \<and> fst (validateResource (JObj [(''id'', JStr ''p1'')]))
     = Inl (Error ''Resource type is required'')"
  using validateResource_presence_only [of "[(''resourceType'', JStr ''Banana'')]" "''Banana''"]
    validateResource_presence_only [of "[(''id'', JStr ''p1'')]" "''Banana''"]
  by simp

text \<open>
  C4 as stated fails: \<^verbatim>\<open>Banana\<close> is not a recognized kind, and a resource of that kind
  is not rejected.
\<close>

theorem validateResource_unrecognized_counterexample:
  "''Banana'' \<notin> recognized_kinds
   \<and> \<not> isl (fst (validateResource (JObj [(''resourceType'', JStr ''Banana'')])))"
  by (simp add: recognized_kinds_def validateResource_def)

text \<open>
  C5, as the code has it. \<^verbatim>\<open>createSearchParameters\<close> turns every entry of the
  parameter map into a name and value pair, in order, and rejects no name;
  \<^verbatim>\<open>search\<close> then drops the pairs and succeeds with the empty list, for every
  parameter map.
\<close>

theorem search_accepts_every_parameter:
  "map name (createSearchParameters params) = map fst params
   \<and> map value (createSearchParameters params) = map snd params
   \<and> search this params = (Inr [], this)"
  by (simp add: createSearchParameters_def search_def split_def)

text \<open>
  C5 as stated fails: a parameter name that no resource has passes through
  \<^verbatim>\<open>createSearchParameters\<close>, and the search does not fail.
\<close>

theorem search_unknown_parameter_counterexample:
  "createSearchParameters [(''no-such-parameter'', ''x'')]
     = [\<lparr>name = ''no-such-parameter'', value = ''x''\<rparr>]
   \<and> \<not> isl (fst (search PatientController [(''no-such-parameter'', ''x'')]))"
  by (simp add: createSearchParameters_def search_def)

text \<open>
  C6, as the code has it. For every resource that passes validation, \<^verbatim>\<open>create\<close>
  returns the resource itself, and a \<^verbatim>\<open>read\<close> of any id afterwards returns the empty
  object, which is not the resource that was created.
\<close>

theorem create_then_read:
  assumes "get_property r ''resourceType'' = Inr t" and "truthy t"
  shows "fst (create this r) = Inr r
    \<and> fst (read (snd (create this r)) i) = Inr (JObj [])
    \<and> fst (read (snd (create this r)) i) \<noteq> Inr r"
proof -
  from assms have "r \<noteq> JObj []" by auto
  with assms show ?thesis
    by (simp add: create_outcome validateResource_outcome read_def)
qed

text \<open>The theorem at a female Patient, read back under the id \<^verbatim>\<open>p1\<close>.\<close>

theorem create_then_read_witness:
  "get_property (JObj [(''resourceType'', JStr ''Patient''), (''gender'', JStr ''female'')])
      ''resourceType'' = Inr (JStr ''Patient'')
   \<and> truthy (JStr ''Patient'')
   \<and> fst (create PatientController
        (JObj [(''resourceType'', JStr ''Patient''), (''gender'', JStr ''female'')]))
     = Inr (JObj [(''resourceType'', JStr ''Patient''), (''gender'', JStr ''female'')])
   \<and> fst (read (snd (create PatientController
        (JObj [(''resourceType'', JStr ''Patient''), (''gender'', JStr ''female'')]))) ''p1'')
     = Inr (JObj [])"
  using create_then_read
    [of "JObj [(''resourceType'', JStr ''Patient''), (''gender'', JStr ''female'')]"
      "JStr ''Patient''" PatientController "''p1''"]
  by simp

text \<open>
  C6 as stated fails: Jane Smith is created with gender \<^verbatim>\<open>female\<close>, and the resource
  read afterwards has no gender.
\<close>

theorem create_then_read_counterexample:
  "fst (create PatientController
      (JObj [(''resourceType'', JStr ''Patient''),
             (''name'', JArr [JObj [(''family'', JStr ''Smith''), (''given'', JArr [JStr ''Jane''])]]),
             (''gender'', JStr ''female'')]))
     = Inr (JObj [(''resourceType'', JStr ''Patient''),
             (''name'', JArr [JObj [(''family'', JStr ''Smith''), (''given'', JArr [JStr ''Jane''])]]),
             (''gender'', JStr ''female'')])
   \<and> fst (read (snd (create PatientController
      (JObj [(''resourceType'', JStr ''Patient''),
             (''name'', JArr [JObj [(''family'', JStr ''Smith''), (''given'', JArr [JStr ''Jane''])]]),
             (''gender'', JStr ''female'')]))) ''p1'') = Inr (JObj [])
   \<and> get_property (JObj []) ''gender'' = Inr JUndefined
   \<and> get_property
       (JObj [(''resourceType'', JStr ''Patient''),
             (''name'', JArr [JObj [(''family'', JStr ''Smith''), (''given'', JArr [JStr ''Jane''])]]),
             (''gender'', JStr ''female'')]) ''gender'' = Inr (JStr ''female'')"
  by (simp add: create_def validateResource_def read_def)

text \<open>
  C7. For every candidate, \<^verbatim>\<open>validateResource\<close> leaves the candidate as it found it,
  whether it succeeds or fails, and the controller through which \<^verbatim>\<open>create\<close> or
  \<^verbatim>\<open>update\<close> runs the validation is unchanged as well.
\<close>

theorem validateResource_no_effect:
  "snd (validateResource r) = r
   \<and> snd (create this r) = this
   \<and> snd (update this i r) = this"
  by (simp add: validateResource_def create_def update_def split: sum.split prod.split)

text \<open>
  C8. For every id string, \<^verbatim>\<open>read\<close> yields the empty object, a value with no
  fields, and never fails, on every controller, and so on a Patient controller that has
  served any requests before (creations and deletions of that id among them).
\<close>

theorem read_empty_object:
  "fst (read this i) = Inr (JObj [])
   \<and> fst (read (foldl after PatientController history) i) = Inr (JObj [])
   \<and> get_property (JObj []) k = Inr JUndefined"
  by (simp add: read_def)

text \<open>
  C9. For every parameter map, \<^verbatim>\<open>search\<close> returns the empty list (and so does
  \<^verbatim>\<open>searchByName\<close> for every name), and \<^verbatim>\<open>getPatientHistory\<close> returns the empty
  list for every id.
\<close>

theorem search_and_history_empty:
  "fst (search this params) = Inr []
   \<and> fst (searchByName this n) = Inr []
   \<and> fst (getPatientHistory this i) = Inr []"
  by (simp add: search_def searchByName_def getPatientHistory_def)

text \<open>
  C10. For every id string, \<^verbatim>\<open>delete\<close> succeeds and leaves the controller as it
  was, so every \<^verbatim>\<open>read\<close>, \<^verbatim>\<open>search\<close> and \<^verbatim>\<open>getPatientHistory\<close> gives after the
  call what it gave before.
\<close>

theorem delete_no_effect:
  "fst (delete this i) = Inr ()
   \<and> snd (delete this i) = this
   \<and> read (snd (delete this i)) j = read this j
   \<and> search (snd (delete this i)) params = search this params
   \<and> getPatientHistory (snd (delete this i)) j = getPatientHistory this j"
  by (simp add: delete_def)

end
